theory Spec2Isabelle
  imports Complex_Main "HOL-Library.AList"
begin

section \<open>The Python API service (web-services/python-api/app.py)\<close>

text \<open>
  The module keeps its state in module-level globals: the dictionary \<open>network_data\<close>, the
  two connection handles \<open>postgres_conn\<close> and \<open>redis_client\<close>, and four Prometheus
  metrics. Every function of the module is embedded as a function on a record of these
  globals. Calls into libraries that talk to the outside (psycopg2, redis, socket, the
  clock, the process environment) take their outcome from a record \<open>world\<close>, and every
  such call is appended to a trace kept in the state, so that what a function attempts can
  be read off the state it returns. A Python exception is a value: a computation returns
  \<open>Inl e\<close> when it raises \<open>e\<close> and \<open>Inr v\<close> when it returns \<open>v\<close>.
\<close>

subsection \<open>Data model\<close>

text \<open>An exception: its class name and its message (\<open>str(e)\<close>).\<close>

datatype exn = Exception string string

fun str_exn :: "exn \<Rightarrow> string" where
  "str_exn (Exception cls msg) = msg"

text \<open>Points in time (\<open>datetime.now()\<close>), in microseconds.\<close>

type_synonym timestamp = int

record pg_params =
  pg_host :: string
  pg_database :: string
  pg_user :: string
  pg_password :: string
  pg_port :: int

record redis_params =
  rd_host :: string
  rd_port :: int
  rd_decode_responses :: bool

text \<open>
  The handles returned by \<open>psycopg2.connect\<close> and \<open>redis.Redis\<close>. Neither class defines
  \<open>__bool__\<close> or \<open>__len__\<close>, so a handle is truthy and \<open>if postgres_conn:\<close> tests
  for \<open>None\<close>.
\<close>

datatype pg_conn = PgConn pg_params

datatype redis_handle = RedisClient redis_params

text \<open>What is sent back to the client as a JSON document (\<open>jsonify\<close>).\<close>

datatype json =
    JNull
  | JBool bool
  | JInt int
  | JNum rat
  | JStr string
  | JTime timestamp
  | JObj "(string \<times> json) list"

text \<open>
  A response body is a JSON document, the text of \<open>generate_latest()\<close> (given by the
  values of the four metrics it renders), a static file, an error page of the framework,
  or nothing.
\<close>

datatype body =
    Jsonify json
  | GenerateLatest "string \<times> string \<times> int \<Rightarrow> nat option" "rat list" int "string \<Rightarrow> int option"
  | StaticFile string
  | ErrorPage
  | NoBody

record response =
  status_code :: int
  body :: body

text \<open>The calls that leave the process, in the order they are made.\<close>

datatype call =
    Psycopg2Connect pg_params
  | RedisNew redis_params
  | RedisPing
  | PgCursor
  | PgExecute string
  | PgFetchone
  | PgCursorClose
  | RedisSet string string int
  | RedisGet string
  | RedisInfo string
  | RedisSetex string int string
  | CreateConnection string int int
  | GetHostName
  | GetHostByName string
  | GetRUsage
  | AppRun string int bool

text \<open>
  The globals of the module. \<open>service_health\<close> is the dictionary
  \<open>network_data['service_health']\<close>, kept in insertion order. The three labelled or
  unlabelled Prometheus metrics hold integral values only (they are set to 0 or 1, or moved
  by 1), so they are integers here. \<open>request_duration\<close> is the list of observations of the
  histogram \<open>REQUEST_DURATION\<close>. \<open>threads\<close> counts the background threads that were
  started and have not run yet.
\<close>

record state =
  start_time :: timestamp
  request_count :: int
  unique_clients :: "string option set"
  service_health :: "(string \<times> bool) list"
  postgres_conn :: "pg_conn option"
  redis_client :: "redis_handle option"
  http_requests_total :: "string \<times> string \<times> int \<Rightarrow> nat option"
  request_duration :: "rat list"
  active_connections :: int
  database_connections :: "string \<Rightarrow> int option"
  threads :: nat
  calls :: "call list"

definition init_state :: "timestamp \<Rightarrow> state" where
  "init_state t =
     \<lparr>start_time = t, request_count = 0, unique_clients = {},
      service_health = [(''postgres'', False), (''redis'', False)],
      postgres_conn = None, redis_client = None,
      http_requests_total = Map.empty, request_duration = [],
      active_connections = 0, database_connections = Map.empty,
      threads = 0, calls = []\<rparr>"

text \<open>
  The outcome of each outside call during one run of a handler. No handler makes the same
  call twice, so one outcome per call is enough. \<open>send_static_file\<close> is the answer of
  the framework's own view for the static rule.
\<close>

record world =
  environ :: "string \<Rightarrow> string option"
  psycopg2_connect :: "pg_params \<Rightarrow> exn + pg_conn"
  redis_Redis :: "redis_params \<Rightarrow> exn + redis_handle"
  redis_ping :: "exn + bool"
  pg_cursor :: "exn + unit"
  pg_execute :: "exn + unit"
  pg_fetchone :: "exn + (string \<times> timestamp) option"
  pg_cursor_close :: "exn + unit"
  redis_set :: "exn + bool"
  redis_get :: "exn + string option"
  redis_info :: "exn + (string \<times> string) list"
  redis_setex :: "exn + bool"
  create_connection :: "exn + unit"
  gethostname :: "exn + string"
  gethostbyname :: "string \<Rightarrow> exn + string"
  ru_maxrss :: "exn + int"
  datetime_now :: timestamp
  time_time :: int
  sys_version :: string
  send_static_file :: "string \<Rightarrow> response"

subsection \<open>Computations on the globals that may raise\<close>

type_synonym 'a io = "state \<Rightarrow> (exn + 'a) \<times> state"

definition return_io :: "'a \<Rightarrow> 'a io" where
  "return_io v st = (Inr v, st)"

definition raise_io :: "exn \<Rightarrow> 'a io" where
  "raise_io e st = (Inl e, st)"

definition bind_io :: "'a io \<Rightarrow> ('a \<Rightarrow> 'b io) \<Rightarrow> 'b io" where
  "bind_io m f st = (case m st of (Inl e, st') \<Rightarrow> (Inl e, st') | (Inr v, st') \<Rightarrow> f v st')"

text \<open>\<open>try: m except Exception as e: h e\<close>\<close>

definition try_except :: "'a io \<Rightarrow> (exn \<Rightarrow> 'a io) \<Rightarrow> 'a io" where
  "try_except m h st = (case m st of (Inl e, st') \<Rightarrow> h e st' | (Inr v, st') \<Rightarrow> (Inr v, st'))"

text \<open>An assignment to the globals.\<close>

definition modify :: "(state \<Rightarrow> state) \<Rightarrow> unit io" where
  "modify f st = (Inr (), f st)"

text \<open>A computation that reads the globals.\<close>

definition reads :: "(state \<Rightarrow> 'a io) \<Rightarrow> 'a io" where
  "reads f st = f st st"

text \<open>An outside call: it is recorded, and it returns or raises as the world says.\<close>

definition outside :: "call \<Rightarrow> exn + 'a \<Rightarrow> 'a io" where
  "outside c r st = (r, st\<lparr>calls := calls st @ [c]\<rparr>)"

text \<open>\<open>os.getenv(k, d)\<close>\<close>

definition getenv :: "world \<Rightarrow> string \<Rightarrow> string \<Rightarrow> string" where
  "getenv w k d = (case environ w k of None \<Rightarrow> d | Some v \<Rightarrow> v)"

text \<open>\<open>network_data['service_health'][k] = b\<close>\<close>

definition set_health :: "string \<Rightarrow> bool \<Rightarrow> state \<Rightarrow> state" where
  "set_health k b st = st\<lparr>service_health := AList.update k b (service_health st)\<rparr>"

text \<open>\<open>DATABASE_CONNECTIONS.labels(database=k).set(v)\<close>\<close>

definition set_database_connections :: "string \<Rightarrow> int \<Rightarrow> state \<Rightarrow> state" where
  "set_database_connections k v st =
     st\<lparr>database_connections := (database_connections st)(k \<mapsto> v)\<rparr>"

subsection \<open>Connection bring-up\<close>

definition postgres_params :: "world \<Rightarrow> pg_params" where
  "postgres_params w =
     \<lparr>pg_host = getenv w ''POSTGRES_HOST'' ''localhost'',
      pg_database = getenv w ''POSTGRES_DB'' ''appdb'',
      pg_user = getenv w ''POSTGRES_USER'' ''user'',
      pg_password = getenv w ''POSTGRES_PASSWORD'' ''password'',
      pg_port = 5432\<rparr>"

definition connect_postgres :: "world \<Rightarrow> bool io" where
  "connect_postgres w =
     try_except
       (bind_io (outside (Psycopg2Connect (postgres_params w))
                   (psycopg2_connect w (postgres_params w))) (\<lambda>c.
        bind_io (modify (\<lambda>st. st\<lparr>postgres_conn := Some c\<rparr>)) (\<lambda>_.
        bind_io (modify (set_health ''postgres'' True)) (\<lambda>_.
        bind_io (modify (set_database_connections ''postgres'' 1)) (\<lambda>_.
        return_io True)))))
       (\<lambda>e.
        bind_io (modify (set_health ''postgres'' False)) (\<lambda>_.
        bind_io (modify (set_database_connections ''postgres'' 0)) (\<lambda>_.
        return_io False)))"

definition redis_client_params :: "world \<Rightarrow> redis_params" where
  "redis_client_params w =
     \<lparr>rd_host = getenv w ''REDIS_HOST'' ''localhost'', rd_port = 6379,
      rd_decode_responses = True\<rparr>"

definition connect_redis :: "world \<Rightarrow> bool io" where
  "connect_redis w =
     try_except
       (bind_io (outside (RedisNew (redis_client_params w))
                   (redis_Redis w (redis_client_params w))) (\<lambda>c.
        bind_io (modify (\<lambda>st. st\<lparr>redis_client := Some c\<rparr>)) (\<lambda>_.
        bind_io (outside RedisPing (redis_ping w)) (\<lambda>_.
        bind_io (modify (set_health ''redis'' True)) (\<lambda>_.
        bind_io (modify (set_database_connections ''redis'' 1)) (\<lambda>_.
        return_io True))))))
       (\<lambda>e.
        bind_io (modify (set_health ''redis'' False)) (\<lambda>_.
        bind_io (modify (set_database_connections ''redis'' 0)) (\<lambda>_.
        return_io False)))"

text \<open>
  The \<open>__main__\<close> block: both connects, their results dropped, then \<open>app.run\<close>. The call
  of \<open>app.run\<close> is the point at which the process begins to serve.
\<close>

definition main :: "world \<Rightarrow> unit io" where
  "main w =
     bind_io (connect_postgres w) (\<lambda>_.
     bind_io (connect_redis w) (\<lambda>_.
     outside (AppRun ''0.0.0.0'' 5000 True) (Inr ())))"

subsection \<open>Request tracking\<close>

text \<open>
  What is read of a request: \<open>request.method\<close> (in upper case), \<open>request.path\<close>, the
  \<open>HTTP_X_REAL_IP\<close> entry of the WSGI environment and \<open>request.remote_addr\<close>.
\<close>

record request =
  rq_method :: string
  rq_path :: string
  x_real_ip :: "string option"
  remote_addr :: "string option"

text \<open>The rules registered with \<open>@app.route\<close>: the path and the name of the view.\<close>

definition url_map :: "(string \<times> string) list" where
  "url_map =
     [(''/health'', ''health_check''),
      (''/network-info'', ''network_info''),
      (''/api/metrics'', ''api_metrics''),
      (''/api/network-test'', ''network_test''),
      (''/api/simulate-load'', ''simulate_load''),
      (''/metrics'', ''prometheus_metrics'')]"

text \<open>
  No rule names its methods, so each allows \<open>GET\<close> and, with it, \<open>HEAD\<close> and
  \<open>OPTIONS\<close>.
\<close>

definition allowed_methods :: "string list" where
  "allowed_methods = [''GET'', ''HEAD'', ''OPTIONS'']"

text \<open>
  \<open>Flask(__name__)\<close> adds the rule \<open>/static/<path:filename>\<close> with the endpoint
  \<open>static\<close>; a file name is not empty and does not begin with a slash.
\<close>

definition static_filename :: "string \<Rightarrow> string option" where
  "static_filename p =
     (if take 8 p = ''/static/'' \<and> drop 8 p \<noteq> [] \<and> take 1 (drop 8 p) \<noteq> ''/''
      then Some (drop 8 p) else None)"

text \<open>
  What routing makes of a request: a rule matches and allows the method, a rule matches
  and does not allow it, or no rule matches.
\<close>

datatype routing = Matched string | NotFound | MethodNotAllowed

definition match_rule :: "string \<Rightarrow> string option" where
  "match_rule p =
     (case map_of url_map p of
        Some ep \<Rightarrow> Some ep
      | None \<Rightarrow> (case static_filename p of Some f \<Rightarrow> Some ''static'' | None \<Rightarrow> None))"

definition match_request :: "request \<Rightarrow> routing" where
  "match_request rq =
     (case match_rule (rq_path rq) of
        None \<Rightarrow> NotFound
      | Some ep \<Rightarrow>
          if rq_method rq \<in> set allowed_methods then Matched ep else MethodNotAllowed)"

text \<open>\<open>request.endpoint\<close>: the name of the matched view, \<open>None\<close> when routing failed.\<close>

definition rq_endpoint :: "request \<Rightarrow> string option" where
  "rq_endpoint rq = (case match_request rq of Matched ep \<Rightarrow> Some ep | _ \<Rightarrow> None)"

text \<open>\<open>request.environ.get('HTTP_X_REAL_IP', request.remote_addr)\<close>\<close>

definition client_ip :: "request \<Rightarrow> string option" where
  "client_ip rq = (case x_real_ip rq of Some ip \<Rightarrow> Some ip | None \<Rightarrow> remote_addr rq)"

definition before_request :: "request \<Rightarrow> state \<Rightarrow> state" where
  "before_request rq st =
     st\<lparr>request_count := request_count st + 1,
        unique_clients := insert (client_ip rq) (unique_clients st),
        active_connections := active_connections st + 1\<rparr>"

text \<open>\<open>request.endpoint or 'unknown'\<close>: \<open>None\<close> and the empty string are falsy.\<close>

definition endpoint_label :: "request \<Rightarrow> string" where
  "endpoint_label rq =
     (case rq_endpoint rq of None \<Rightarrow> ''unknown'' | Some ep \<Rightarrow> if ep = [] then ''unknown'' else ep)"

text \<open>\<open>REQUEST_COUNT.labels(...).inc()\<close>: an unseen label set starts at zero.\<close>

definition inc_counter ::
  "string \<times> string \<times> int \<Rightarrow> (string \<times> string \<times> int \<Rightarrow> nat option)
     \<Rightarrow> (string \<times> string \<times> int \<Rightarrow> nat option)" where
  "inc_counter k m = m(k \<mapsto> (case m k of None \<Rightarrow> 1 | Some n \<Rightarrow> Suc n))"

definition after_request :: "request \<Rightarrow> response \<Rightarrow> state \<Rightarrow> response \<times> state" where
  "after_request rq resp st =
     (resp,
      st\<lparr>http_requests_total :=
           inc_counter (rq_method rq, endpoint_label rq, status_code resp)
             (http_requests_total st),
         active_connections := active_connections st - 1\<rparr>)"

subsection \<open>Views\<close>

definition ok :: "json \<Rightarrow> response" where
  "ok j = \<lparr>status_code = 200, body = Jsonify j\<rparr>"

definition services_json :: "state \<Rightarrow> json" where
  "services_json st = JObj (map (\<lambda>(k, b). (k, JBool b)) (service_health st))"

definition health_check :: "world \<Rightarrow> response io" where
  "health_check w =
     reads (\<lambda>st.
     return_io (ok (JObj
       [(''status'', JStr ''healthy''),
        (''timestamp'', JTime (datetime_now w)),
        (''services'', services_json st),
        (''python_version'', JStr (sys_version w))])))"

text \<open>\<open>(datetime.now() - network_data['start_time']).total_seconds()\<close>\<close>

definition uptime_seconds :: "world \<Rightarrow> state \<Rightarrow> rat" where
  "uptime_seconds w st = of_int (datetime_now w - start_time st) / 1000000"

definition network_info :: "world \<Rightarrow> response io" where
  "network_info w =
     bind_io (outside GetHostName (gethostname w)) (\<lambda>hostname.
     bind_io
       (try_except
          (bind_io (outside (GetHostByName hostname) (gethostbyname w hostname)) (\<lambda>host_info.
           return_io (JObj
             [(''hostname'', JStr hostname),
              (''container_ip'', JStr host_info),
              (''listening_port'', JInt 5000),
              (''protocol'', JStr ''HTTP/1.1'')])))
          (\<lambda>e. return_io (JObj
             [(''hostname'', JStr hostname), (''error'', JStr (str_exn e))])))
       (\<lambda>info. reads (\<lambda>st.
     return_io (ok (JObj
       [(''container'', info),
        (''stats'', JObj
           [(''requests_served'', JInt (request_count st)),
            (''unique_clients'', JInt (int (card (unique_clients st)))),
            (''uptime_seconds'', JNum (uptime_seconds w st)),
            (''services'', services_json st)]),
        (''environment'', JObj
           [(''DATABASE_URL'', JStr (getenv w ''DATABASE_URL'' ''Not set'')),
            (''REDIS_HOST'', JStr (getenv w ''REDIS_HOST'' ''localhost'')),
            (''POSTGRES_HOST'', JStr (getenv w ''POSTGRES_HOST'' ''localhost''))])])))))"

text \<open>\<open>get_memory_usage\<close>: the bare \<open>except\<close> turns every failure into 0.\<close>

definition get_memory_usage :: "world \<Rightarrow> json io" where
  "get_memory_usage w =
     try_except
       (bind_io (outside GetRUsage (ru_maxrss w)) (\<lambda>r. return_io (JNum (of_int r / 1024))))
       (\<lambda>e. return_io (JInt 0))"

text \<open>\<open>s.split()[0]\<close>: the first run of non-blank characters, IndexError if there is none.\<close>

definition is_space :: "char \<Rightarrow> bool" where
  "is_space c = (c \<in> set [CHR '' '', CHR 0x09, CHR 0x0A, CHR 0x0B, CHR 0x0C, CHR 0x0D])"

definition first_word :: "string \<Rightarrow> string io" where
  "first_word s =
     (case dropWhile is_space s of
        [] \<Rightarrow> raise_io (Exception ''IndexError'' ''list index out of range'')
      | c # cs \<Rightarrow> return_io (takeWhile (\<lambda>x. \<not> is_space x) (c # cs)))"

text \<open>\<open>network_data['service_health'][k]\<close>\<close>

definition health_of :: "string \<Rightarrow> bool io" where
  "health_of k =
     reads (\<lambda>st.
     (case map_of (service_health st) k of
        None \<Rightarrow> raise_io (Exception ''KeyError'' k)
      | Some b \<Rightarrow> return_io b))"

definition api_metrics :: "world \<Rightarrow> response io" where
  "api_metrics w =
     try_except
       (reads (\<lambda>st.
        bind_io (outside GetHostName (gethostname w)) (\<lambda>hostname.
        bind_io (first_word (sys_version w)) (\<lambda>version.
        bind_io (get_memory_usage w) (\<lambda>memory.
        bind_io (health_of ''postgres'') (\<lambda>pg.
        bind_io (health_of ''redis'') (\<lambda>rd.
        return_io (ok (JObj
          [(''application'', JObj
              [(''name'', JStr ''python-api-service''),
               (''version'', JStr ''1.0.0''),
               (''uptime_seconds'', JNum (uptime_seconds w st)),
               (''total_requests'', JInt (request_count st)),
               (''unique_clients'', JInt (int (card (unique_clients st))))]),
           (''infrastructure'', JObj
              [(''hostname'', JStr hostname),
               (''python_version'', JStr version),
               (''memory_usage_mb'', memory)]),
           (''dependencies'', JObj
              [(''postgres_connected'', JBool pg),
               (''redis_connected'', JBool rd)])])))))))))
       (\<lambda>e. return_io
          \<lparr>status_code = 500, body = Jsonify (JObj [(''error'', JStr (str_exn e))])\<rparr>)"

text \<open>\<open>str(i)\<close> for an integer.\<close>

fun str_nat :: "nat \<Rightarrow> string" where
  "str_nat n =
     (if n < 10 then [char_of (48 + n)] else str_nat (n div 10) @ [char_of (48 + n mod 10)])"

definition str_int :: "int \<Rightarrow> string" where
  "str_int i = (if i < 0 then CHR ''-'' # str_nat (nat (- i)) else str_nat (nat i))"

text \<open>
  The database section of \<open>network_test\<close>. \<open>fetchone\<close> returns a row or \<open>None\<close>;
  subscripting \<open>None\<close> raises TypeError inside the \<open>try\<close>.
\<close>

definition network_test_postgres :: "world \<Rightarrow> json io" where
  "network_test_postgres w =
     reads (\<lambda>st.
     (case postgres_conn st of
        Some conn \<Rightarrow>
          try_except
            (bind_io (outside PgCursor (pg_cursor w)) (\<lambda>_.
             bind_io (outside (PgExecute ''SELECT version(), current_timestamp'')
                        (pg_execute w)) (\<lambda>_.
             bind_io (outside PgFetchone (pg_fetchone w)) (\<lambda>result.
             bind_io (outside PgCursorClose (pg_cursor_close w)) (\<lambda>_.
             (case result of
                None \<Rightarrow> raise_io (Exception ''TypeError'' ''NoneType object is not subscriptable'')
              | Some (version, ts) \<Rightarrow>
                  return_io (JObj
                    [(''status'', JStr ''connected''),
                     (''version'', JStr (take 50 version @ ''...'')),
                     (''timestamp'', JTime ts)])))))))
            (\<lambda>e. return_io (JObj
               [(''status'', JStr ''error''), (''error'', JStr (str_exn e))]))
      | None \<Rightarrow> return_io (JObj [(''status'', JStr ''not_connected'')])))"

text \<open>The cache section of \<open>network_test\<close>.\<close>

definition network_test_redis :: "world \<Rightarrow> json io" where
  "network_test_redis w =
     reads (\<lambda>st.
     (case redis_client st of
        Some client \<Rightarrow>
          try_except
            (bind_io (outside (RedisSet (''network_test_'' @ str_int (time_time w))
                                 ''test_value'' 60) (redis_set w)) (\<lambda>_.
             bind_io (outside (RedisGet (''network_test_'' @ str_int (time_time w)))
                        (redis_get w)) (\<lambda>retrieved.
             bind_io (outside (RedisInfo ''server'') (redis_info w)) (\<lambda>info.
             (case map_of info ''redis_version'' of
                None \<Rightarrow> raise_io (Exception ''KeyError'' ''redis_version'')
              | Some v \<Rightarrow>
                  return_io (JObj
                    [(''status'', JStr ''connected''),
                     (''test_successful'', JBool (retrieved = Some ''test_value'')),
                     (''info'', JStr v)]))))))
            (\<lambda>e. return_io (JObj
               [(''status'', JStr ''error''), (''error'', JStr (str_exn e))]))
      | None \<Rightarrow> return_io (JObj [(''status'', JStr ''not_connected'')])))"

definition test_external_connectivity :: "world \<Rightarrow> json io" where
  "test_external_connectivity w =
     try_except
       (bind_io (outside (CreateConnection ''8.8.8.8'' 53 3) (create_connection w)) (\<lambda>_.
        return_io (JObj [(''status'', JStr ''connected''), (''target'', JStr ''8.8.8.8:53'')])))
       (\<lambda>e. return_io (JObj [(''status'', JStr ''failed''), (''target'', JStr ''8.8.8.8:53'')]))"

definition network_test :: "world \<Rightarrow> response io" where
  "network_test w =
     bind_io (network_test_postgres w) (\<lambda>pg.
     bind_io (network_test_redis w) (\<lambda>rd.
     bind_io (test_external_connectivity w) (\<lambda>ext.
     return_io (ok (JObj
       [(''timestamp'', JTime (datetime_now w)),
        (''tests'', JObj [(''postgres'', pg), (''redis'', rd), (''external'', ext)])])))))"

subsection \<open>Background load\<close>

text \<open>The loop of \<open>background_task\<close>: the sum of \<open>i * i\<close> for \<open>i\<close> in \<open>range(100000)\<close>.\<close>

definition cpu_work :: int where
  "cpu_work = fold (\<lambda>i total. total + int i * int i) [0..<100000] 0"

text \<open>
  The body of the thread started by \<open>simulate_load\<close>. It writes to the cache only when
  \<open>redis_client\<close> is set, and nothing catches what \<open>setex\<close> raises.
\<close>

definition background_task :: "world \<Rightarrow> unit io" where
  "background_task w =
     reads (\<lambda>st.
     (case redis_client st of
        Some client \<Rightarrow>
          bind_io (outside (RedisSetex (''load_test_'' @ str_int (time_time w)) 300
                              (str_int cpu_work)) (redis_setex w)) (\<lambda>_.
          return_io ())
      | None \<Rightarrow> return_io ()))"

text \<open>
  \<open>simulate_load\<close> starts the thread and returns; it does not join it. The started
  thread is counted in \<open>threads\<close> and runs in a later step of its own.
\<close>

definition load_started :: "world \<Rightarrow> response" where
  "load_started w = ok (JObj
     [(''message'', JStr ''Load simulation started''),
      (''timestamp'', JTime (datetime_now w)),
      (''note'', JStr ''This simulates CPU load and Redis writes for learning purposes'')])"

definition simulate_load :: "world \<Rightarrow> response io" where
  "simulate_load w =
     bind_io (modify (\<lambda>st. st\<lparr>threads := threads st + 1\<rparr>)) (\<lambda>_.
     return_io (load_started w))"

text \<open>
  One started thread runs to its end. What the body raises ends the thread and goes no
  further: the state the body reached stays, and no handler sees the exception.
\<close>

definition run_thread :: "world \<Rightarrow> state \<Rightarrow> state" where
  "run_thread w st =
     (if threads st = 0 then st
      else snd (background_task w (st\<lparr>threads := threads st - 1\<rparr>)))"

definition prometheus_metrics :: "world \<Rightarrow> response io" where
  "prometheus_metrics w =
     reads (\<lambda>st.
     return_io
       \<lparr>status_code = 200,
        body = GenerateLatest (http_requests_total st) (request_duration st)
                 (active_connections st) (database_connections st)\<rparr>)"

subsection \<open>The request cycle\<close>

text \<open>
  The views by endpoint name: the six of the module, and the framework's view for the
  static rule.
\<close>

definition view_functions :: "world \<Rightarrow> request \<Rightarrow> (string \<times> response io) list" where
  "view_functions w rq =
     [(''health_check'', health_check w),
      (''network_info'', network_info w),
      (''api_metrics'', api_metrics w),
      (''network_test'', network_test w),
      (''simulate_load'', simulate_load w),
      (''prometheus_metrics'', prometheus_metrics w),
      (''static'', return_io (send_static_file w (drop 8 (rq_path rq))))]"

definition not_found :: response where
  "not_found = \<lparr>status_code = 404, body = ErrorPage\<rparr>"

definition method_not_allowed :: response where
  "method_not_allowed = \<lparr>status_code = 405, body = ErrorPage\<rparr>"

definition default_options_response :: response where
  "default_options_response = \<lparr>status_code = 200, body = NoBody\<rparr>"

text \<open>
  The framework's dispatch. A routing failure is answered with 404 or 405, and an
  \<open>OPTIONS\<close> request with the framework's own answer; neither calls a view. Any other
  request is handed to the view of the matched rule.
\<close>

definition dispatch_request :: "world \<Rightarrow> request \<Rightarrow> response io" where
  "dispatch_request w rq =
     (case match_request rq of
        NotFound \<Rightarrow> return_io not_found
      | MethodNotAllowed \<Rightarrow> return_io method_not_allowed
      | Matched ep \<Rightarrow>
          if rq_method rq = ''OPTIONS'' then return_io default_options_response
          else (case map_of (view_functions w rq) ep of
                  None \<Rightarrow> return_io not_found
                | Some view \<Rightarrow> view))"

text \<open>
  One request as the server started by \<open>main\<close> handles it: \<open>before_request\<close>, the
  dispatch, and \<open>after_request\<close> on the response. The server runs with
  \<open>debug=True\<close>: an exception that leaves a view is raised again by the framework, and
  no \<open>after_request\<close> function is called. The module has no other call of the two
  hooks, no \<open>try\<close>/\<open>finally\<close> around a view and no teardown function.
\<close>

definition handle_request :: "world \<Rightarrow> request \<Rightarrow> state \<Rightarrow> (exn + response) \<times> state" where
  "handle_request w rq st =
     (case dispatch_request w rq (before_request rq st) of
        (Inr resp, st') \<Rightarrow>
          (case after_request rq resp st' of (resp', st'') \<Rightarrow> (Inr resp', st''))
      | (Inl e, st') \<Rightarrow> (Inl e, st'))"

text \<open>What happens to the process: it starts, it serves a request, a started thread runs.\<close>

datatype event = Startup world | Request world request | ThreadRun world

fun step :: "event \<Rightarrow> state \<Rightarrow> state" where
  "step (Startup w) st = snd (main w st)"
| "step (Request w rq) st = snd (handle_request w rq st)"
| "step (ThreadRun w) st = run_thread w st"

fun run :: "event list \<Rightarrow> state \<Rightarrow> state" where
  "run [] st = st"
| "run (ev # evs) st = run evs (step ev st)"

subsection \<open>Sample worlds\<close>

text \<open>A world in which every outside call succeeds, and one in which the cache is down.\<close>

definition world_up :: world where
  "world_up =
     \<lparr>environ = Map.empty,
      psycopg2_connect = (\<lambda>p. Inr (PgConn p)),
      redis_Redis = (\<lambda>p. Inr (RedisClient p)),
      redis_ping = Inr True,
      pg_cursor = Inr (),
      pg_execute = Inr (),
      pg_fetchone = Inr (Some (''PostgreSQL 16.1'', 1700000000000000)),
      pg_cursor_close = Inr (),
      redis_set = Inr True,
      redis_get = Inr (Some ''test_value''),
      redis_info = Inr [(''redis_version'', ''7.2.4'')],
      redis_setex = Inr True,
      create_connection = Inr (),
      gethostname = Inr ''api'',
      gethostbyname = (\<lambda>h. Inr ''172.18.0.5''),
      ru_maxrss = Inr 40960,
      datetime_now = 1700000000000000,
      time_time = 1700000000,
      sys_version = ''3.11.7 (main)'',
      send_static_file = (\<lambda>f. \<lparr>status_code = 404, body = ErrorPage\<rparr>)\<rparr>"

definition refused :: exn where
  "refused = Exception ''ConnectionError'' ''Connection refused''"

definition world_cache_down :: world where
  "world_cache_down =
     world_up\<lparr>redis_ping := Inl refused, redis_set := Inl refused, redis_get := Inl refused,
              redis_info := Inl refused, redis_setex := Inl refused\<rparr>"

definition get_health :: request where
  "get_health =
     \<lparr>rq_method = ''GET'', rq_path = ''/health'', x_real_ip = None, remote_addr = Some ''10.0.0.7''\<rparr>"

definition get_network_info :: request where
  "get_network_info =
     \<lparr>rq_method = ''GET'', rq_path = ''/network-info'', x_real_ip = None, remote_addr = Some ''10.0.0.7''\<rparr>"

definition get_api_metrics :: request where
  "get_api_metrics =
     \<lparr>rq_method = ''GET'', rq_path = ''/api/metrics'', x_real_ip = None,
      remote_addr = Some ''10.0.0.7''\<rparr>"

definition world_no_hostname :: world where
  "world_no_hostname = world_up\<lparr>gethostname := Inl (Exception ''OSError'' ''no host name'')\<rparr>"

definition get_simulate_load :: request where
  "get_simulate_load =
     \<lparr>rq_method = ''GET'', rq_path = ''/api/simulate-load'',
      x_real_ip = None, remote_addr = Some ''10.0.0.7''\<rparr>"

text \<open>The cache does not answer the ping at startup and answers every later call.\<close>

definition world_ping_fails :: world where
  "world_ping_fails = world_up\<lparr>redis_ping := Inl refused\<rparr>"

subsection \<open>When a probe of \<open>network_test\<close> raises\<close>

text \<open>
  Some statement inside the \<open>try\<close> of the database section raises: one of the four
  calls, or the subscript on a \<open>None\<close> row. Likewise for the cache section: one of the
  three calls, or the lookup of \<open>redis_version\<close>.
\<close>

definition pg_probe_raises :: "world \<Rightarrow> bool" where
  "pg_probe_raises w \<longleftrightarrow>
     isl (pg_cursor w) \<or> isl (pg_execute w) \<or> isl (pg_fetchone w) \<or>
     isl (pg_cursor_close w) \<or> pg_fetchone w = Inr None"

definition redis_probe_raises :: "world \<Rightarrow> bool" where
  "redis_probe_raises w \<longleftrightarrow>
     isl (redis_set w) \<or> isl (redis_get w) \<or>
     (case redis_info w of Inl e \<Rightarrow> True | Inr info \<Rightarrow> map_of info ''redis_version'' = None)"

subsection \<open>Reading results\<close>

text \<open>
  The JSON document a handler returned (\<open>JNull\<close> if it raised or returned something
  else), and the member of a document reached by a path of keys.
\<close>

definition document :: "(exn + response) \<times> state \<Rightarrow> json" where
  "document r =
     (case fst r of
        Inl e \<Rightarrow> JNull
      | Inr resp \<Rightarrow> (case body resp of Jsonify j \<Rightarrow> j | _ \<Rightarrow> JNull))"

definition json_field :: "string \<Rightarrow> json \<Rightarrow> json option" where
  "json_field k j = (case j of JObj kvs \<Rightarrow> map_of kvs k | _ \<Rightarrow> None)"

fun json_path :: "string list \<Rightarrow> json \<Rightarrow> json option" where
  "json_path [] j = Some j"
| "json_path (k # ks) j =
     (case json_field k j of None \<Rightarrow> None | Some j' \<Rightarrow> json_path ks j')"

text \<open>
  The calls of \<open>psycopg2.connect\<close> and of the constructor \<open>redis.Redis\<close> among a list
  of outside calls. These are the two calls that \<open>connect_postgres\<close> and
  \<open>connect_redis\<close> make. (The constructor opens no socket; the client does that by
  itself on a command, which is not counted here.)
\<close>

fun is_connect_call :: "call \<Rightarrow> bool" where
  "is_connect_call (Psycopg2Connect p) = True"
| "is_connect_call (RedisNew p) = True"
| "is_connect_call c = False"

definition connect_calls :: "call list \<Rightarrow> nat" where
  "connect_calls cs = length (filter is_connect_call cs)"

subsection \<open>What a computation leaves alone\<close>

text \<open>
  Two states agree on every global but the thread count and the trace of outside calls; a
  computation is framed when, from every state, it ends in a state that agrees with the
  one it started from in this way.
\<close>

definition same_globals :: "state \<Rightarrow> state \<Rightarrow> bool" where
  "same_globals st st' \<longleftrightarrow> st'\<lparr>threads := 0, calls := []\<rparr> = st\<lparr>threads := 0, calls := []\<rparr>"

definition frame :: "'a io \<Rightarrow> bool" where
  "frame m \<longleftrightarrow> (\<forall>st. same_globals st (snd (m st)))"

section \<open>Properties\<close>

subsection \<open>Connection bring-up\<close>

lemmas io_defs =
  return_io_def raise_io_def bind_io_def try_except_def modify_def outside_def reads_def

lemma connect_postgres_result:
  "connect_postgres w st =
     (case psycopg2_connect w (postgres_params w) of
        Inr c \<Rightarrow>
          (Inr True,
           set_database_connections ''postgres'' 1 (set_health ''postgres'' True
             (st\<lparr>calls := calls st @ [Psycopg2Connect (postgres_params w)],
                 postgres_conn := Some c\<rparr>)))
      | Inl e \<Rightarrow>
          (Inr False,
           set_database_connections ''postgres'' 0 (set_health ''postgres'' False
             (st\<lparr>calls := calls st @ [Psycopg2Connect (postgres_params w)]\<rparr>))))"
  by (simp add: connect_postgres_def io_defs split: sum.splits)

lemma connect_redis_result:
  "connect_redis w st =
     (case redis_Redis w (redis_client_params w) of
        Inl e \<Rightarrow>
          (Inr False,
           set_database_connections ''redis'' 0 (set_health ''redis'' False
             (st\<lparr>calls := calls st @ [RedisNew (redis_client_params w)]\<rparr>)))
      | Inr c \<Rightarrow>
         (case redis_ping w of
            Inl e \<Rightarrow>
              (Inr False,
               set_database_connections ''redis'' 0 (set_health ''redis'' False
                 (st\<lparr>redis_client := Some c,
                     calls := calls st @ [RedisNew (redis_client_params w), RedisPing]\<rparr>)))
          | Inr p \<Rightarrow>
              (Inr True,
               set_database_connections ''redis'' 1 (set_health ''redis'' True
                 (st\<lparr>redis_client := Some c,
                     calls := calls st @ [RedisNew (redis_client_params w), RedisPing]\<rparr>)))))"
  by (simp add: connect_redis_def io_defs split: sum.splits)

lemma health_set_health [simp]:
  "map_of (service_health (set_health k b st)) k = Some b"
  by (simp add: set_health_def update_conv')

lemma health_set_database_connections [simp]:
  "service_health (set_database_connections k v st) = service_health st"
  by (simp add: set_database_connections_def)

lemma gauge_set_database_connections [simp]:
  "database_connections (set_database_connections k v st) k = Some v"
  by (simp add: set_database_connections_def)

text \<open>
  C3. Neither \<open>connect_postgres\<close> nor \<open>connect_redis\<close> ever raises: each returns a
  boolean, which is \<open>True\<close> exactly when the connection attempt (and, for the cache, the
  ping after it) succeeded; when it is \<open>False\<close> the entry of the dependency in the health
  map is \<open>False\<close> and its connection gauge is 0.
\<close>

theorem connect_never_raises:
  "(\<exists>b st'. connect_postgres w st = (Inr b, st') \<and>
      (b \<longleftrightarrow> \<not> isl (psycopg2_connect w (postgres_params w))) \<and>
      (\<not> b \<longrightarrow> map_of (service_health st') ''postgres'' = Some False \<and>
               database_connections st' ''postgres'' = Some 0)) \<and>
   (\<exists>b st'. connect_redis w st = (Inr b, st') \<and>
      (b \<longleftrightarrow> \<not> isl (redis_Redis w (redis_client_params w)) \<and> \<not> isl (redis_ping w)) \<and>
      (\<not> b \<longrightarrow> map_of (service_health st') ''redis'' = Some False \<and>
               database_connections st' ''redis'' = Some 0))"
proof
  show "\<exists>b st'. connect_postgres w st = (Inr b, st') \<and>
      (b \<longleftrightarrow> \<not> isl (psycopg2_connect w (postgres_params w))) \<and>
      (\<not> b \<longrightarrow> map_of (service_health st') ''postgres'' = Some False \<and>
               database_connections st' ''postgres'' = Some 0)"
    by (cases "psycopg2_connect w (postgres_params w)") (auto simp add: connect_postgres_result)
next
  show "\<exists>b st'. connect_redis w st = (Inr b, st') \<and>
      (b \<longleftrightarrow> \<not> isl (redis_Redis w (redis_client_params w)) \<and> \<not> isl (redis_ping w)) \<and>
      (\<not> b \<longrightarrow> map_of (service_health st') ''redis'' = Some False \<and>
               database_connections st' ''redis'' = Some 0)"
    by (cases "redis_Redis w (redis_client_params w)"; cases "redis_ping w")
       (auto simp add: connect_redis_result)
qed

theorem connect_never_raises_witness:
  "fst (connect_postgres world_cache_down (init_state 0)) = Inr True \<and>
   fst (connect_redis world_cache_down (init_state 0)) = Inr False \<and>
   map_of (service_health (snd (connect_redis world_cache_down (init_state 0)))) ''redis''
     = Some False \<and>
   database_connections (snd (connect_redis world_cache_down (init_state 0))) ''redis'' = Some 0"
  using connect_never_raises [of world_cache_down "init_state 0"]
  by (auto simp add: world_cache_down_def world_up_def refused_def connect_postgres_result)

subsection \<open>Startup\<close>

lemma main_result:
  "main w st =
     (Inr (),
      (snd (connect_redis w (snd (connect_postgres w st))))
        \<lparr>calls := calls (snd (connect_redis w (snd (connect_postgres w st))))
                    @ [AppRun ''0.0.0.0'' 5000 True]\<rparr>)"
  by (cases "psycopg2_connect w (postgres_params w)";
      cases "redis_Redis w (redis_client_params w)"; cases "redis_ping w")
     (simp_all add: main_def bind_io_def outside_def connect_postgres_result connect_redis_result)

lemma health_after_connects:
  "map_of (service_health (snd (connect_redis w (snd (connect_postgres w st))))) ''postgres''
     = Some (\<not> isl (psycopg2_connect w (postgres_params w))) \<and>
   map_of (service_health (snd (connect_redis w (snd (connect_postgres w st))))) ''redis''
     = Some (\<not> isl (redis_Redis w (redis_client_params w)) \<and> \<not> isl (redis_ping w))"
  by (cases "psycopg2_connect w (postgres_params w)";
      cases "redis_Redis w (redis_client_params w)"; cases "redis_ping w")
     (simp_all add: connect_postgres_result connect_redis_result set_health_def
        set_database_connections_def update_conv')

text \<open>
  C5. Whatever the environment holds and whatever the two connection attempts do, the
  startup sequence does not raise and reaches \<open>app.run\<close> (the last outside call it makes);
  the health map then says \<open>True\<close> for a dependency exactly when its connection came up,
  so a dependency that failed is left marked down.
\<close>

theorem startup_always_serves:
  "\<exists>st'. main w st = (Inr (), st') \<and>
     last (calls st') = AppRun ''0.0.0.0'' 5000 True \<and>
     map_of (service_health st') ''postgres''
       = Some (\<not> isl (psycopg2_connect w (postgres_params w))) \<and>
     map_of (service_health st') ''redis''
       = Some (\<not> isl (redis_Redis w (redis_client_params w)) \<and> \<not> isl (redis_ping w))"
  using health_after_connects [of w st] by (simp add: main_result)

subsection \<open>The health endpoint\<close>



subsection \<open>Request tracking\<close>

lemma after_request_bookkeeping:
  "active_connections (snd (after_request rq resp st)) = active_connections st - 1 \<and>
   http_requests_total (snd (after_request rq resp st))
       (rq_method rq, endpoint_label rq, status_code resp)
     = Some (case http_requests_total st (rq_method rq, endpoint_label rq, status_code resp) of
               None \<Rightarrow> 1 | Some n \<Rightarrow> Suc n) \<and>
   request_duration (snd (after_request rq resp st)) = request_duration st"
  by (simp add: after_request_def inc_counter_def)

lemmas routing_defs =
  match_request_def match_rule_def url_map_def allowed_methods_def static_filename_def

lemma handle_get_health:
  "snd (handle_request w get_health st) =
     snd (after_request get_health (ok (JObj
       [(''status'', JStr ''healthy''),
        (''timestamp'', JTime (datetime_now w)),
        (''services'', services_json (before_request get_health st)),
        (''python_version'', JStr (sys_version w))])) (before_request get_health st))"
  by (simp add: handle_request_def dispatch_request_def view_functions_def get_health_def
        routing_defs health_check_def reads_def return_io_def after_request_def)

text \<open>
  C2 at a concrete request. One \<open>GET /health\<close> is served from the initial state: the gauge
  is back at 0 and the counter for \<open>(GET, health_check, 200)\<close> is 1, but the histogram
  \<open>REQUEST_DURATION\<close> still has no observation. Nothing in the module observes into it.
\<close>

theorem finished_request_leaves_histogram_empty:
  "request_duration (snd (handle_request world_up get_health (init_state 0))) = [] \<and>
   active_connections (snd (handle_request world_up get_health (init_state 0))) = 0 \<and>
   http_requests_total (snd (handle_request world_up get_health (init_state 0)))
     (''GET'', ''health_check'', 200) = Some 1"
  unfolding handle_get_health
  by (simp add: after_request_def before_request_def init_state_def
        inc_counter_def ok_def get_health_def endpoint_label_def rq_endpoint_def routing_defs)

subsection \<open>The views change no global but the thread count and the trace\<close>

named_theorems frame_intros

lemma same_globals_refl: "same_globals st st"
  by (simp add: same_globals_def)

lemma same_globals_trans: "same_globals a b \<Longrightarrow> same_globals b c \<Longrightarrow> same_globals a c"
  by (simp add: same_globals_def)

lemma frameD: "frame m \<Longrightarrow> same_globals st (snd (m st))"
  by (simp add: frame_def)

lemma frame_return [frame_intros]: "frame (return_io v)"
  by (simp add: frame_def return_io_def same_globals_refl)

lemma frame_raise [frame_intros]: "frame (raise_io e)"
  by (simp add: frame_def raise_io_def same_globals_refl)

lemma frame_outside [frame_intros]: "frame (outside c r)"
  by (simp add: frame_def outside_def same_globals_def)

lemma frame_bind [frame_intros]:
  assumes "frame m" and "\<And>v. frame (f v)"
  shows "frame (bind_io m f)"
  unfolding frame_def
proof
  fix st
  obtain r st' where m: "m st = (r, st')" by (cases "m st")
  have a: "same_globals st st'" using frameD [OF assms(1), of st] m by simp
  show "same_globals st (snd (bind_io m f st))"
  proof (cases r)
    case (Inl e)
    then show ?thesis using a m by (simp add: bind_io_def)
  next
    case (Inr v)
    have "same_globals st' (snd (f v st'))" using assms(2) by (rule frameD)
    with a have "same_globals st (snd (f v st'))" by (rule same_globals_trans)
    then show ?thesis using m Inr by (simp add: bind_io_def)
  qed
qed

lemma frame_try [frame_intros]:
  assumes "frame m" and "\<And>e. frame (h e)"
  shows "frame (try_except m h)"
  unfolding frame_def
proof
  fix st
  obtain r st' where m: "m st = (r, st')" by (cases "m st")
  have a: "same_globals st st'" using frameD [OF assms(1), of st] m by simp
  show "same_globals st (snd (try_except m h st))"
  proof (cases r)
    case (Inr v)
    then show ?thesis using a m by (simp add: try_except_def)
  next
    case (Inl e)
    have "same_globals st' (snd (h e st'))" using assms(2) by (rule frameD)
    with a have "same_globals st (snd (h e st'))" by (rule same_globals_trans)
    then show ?thesis using m Inl by (simp add: try_except_def)
  qed
qed

lemma frame_reads [frame_intros]:
  assumes "\<And>s. frame (f s)"
  shows "frame (reads f)"
  using assms by (simp add: frame_def reads_def)

lemma frame_case_option [frame_intros]:
  assumes "frame a" and "\<And>x. frame (f x)"
  shows "frame (case v of None \<Rightarrow> a | Some x \<Rightarrow> f x)"
  using assms by (cases v) simp_all

lemma frame_case_prod [frame_intros]:
  assumes "\<And>x y. frame (f x y)"
  shows "frame (case p of (x, y) \<Rightarrow> f x y)"
  using assms by (cases p) simp

lemma frame_case_list [frame_intros]:
  assumes "frame a" and "\<And>x xs. frame (f x xs)"
  shows "frame (case v of [] \<Rightarrow> a | x # xs \<Rightarrow> f x xs)"
  using assms by (cases v) simp_all

lemma frame_modify_threads [frame_intros]:
  "frame (modify (\<lambda>st. st\<lparr>threads := f st\<rparr>))"
  by (simp add: frame_def modify_def same_globals_def)

lemma frame_health_check [frame_intros]: "frame (health_check w)"
  unfolding health_check_def by (intro frame_intros)

lemma frame_network_info [frame_intros]: "frame (network_info w)"
  unfolding network_info_def by (intro frame_intros)

lemma frame_get_memory_usage [frame_intros]: "frame (get_memory_usage w)"
  unfolding get_memory_usage_def by (intro frame_intros)

lemma frame_first_word [frame_intros]: "frame (first_word s)"
  unfolding first_word_def by (intro frame_intros)

lemma frame_health_of [frame_intros]: "frame (health_of k)"
  unfolding health_of_def by (intro frame_intros)

lemma frame_api_metrics [frame_intros]: "frame (api_metrics w)"
  unfolding api_metrics_def by (intro frame_intros)

lemma frame_network_test_postgres [frame_intros]: "frame (network_test_postgres w)"
  unfolding network_test_postgres_def by (intro frame_intros)

lemma frame_network_test_redis [frame_intros]: "frame (network_test_redis w)"
  unfolding network_test_redis_def by (intro frame_intros)

lemma frame_test_external [frame_intros]: "frame (test_external_connectivity w)"
  unfolding test_external_connectivity_def by (intro frame_intros)

lemma frame_network_test [frame_intros]: "frame (network_test w)"
  unfolding network_test_def by (intro frame_intros)

lemma frame_simulate_load [frame_intros]: "frame (simulate_load w)"
  unfolding simulate_load_def by (intro frame_intros)

lemma frame_prometheus_metrics [frame_intros]: "frame (prometheus_metrics w)"
  unfolding prometheus_metrics_def by (intro frame_intros)

lemma frame_background_task [frame_intros]: "frame (background_task w)"
  unfolding background_task_def by (intro frame_intros)

lemma frame_view:
  assumes "map_of (view_functions w rq) ep = Some view"
  shows "frame view"
  using assms by (auto simp: view_functions_def frame_intros split: if_splits)

lemma frame_dispatch_request: "frame (dispatch_request w rq)"
proof (cases "match_request rq")
  case NotFound
  then show ?thesis by (simp add: dispatch_request_def frame_intros)
next
  case MethodNotAllowed
  then show ?thesis by (simp add: dispatch_request_def frame_intros)
next
  case (Matched ep)
  show ?thesis
  proof (cases "rq_method rq = ''OPTIONS''")
    case True
    with Matched show ?thesis by (simp add: dispatch_request_def frame_intros)
  next
    case False
    show ?thesis
    proof (cases "map_of (view_functions w rq) ep")
      case None
      with Matched False show ?thesis by (simp add: dispatch_request_def frame_intros)
    next
      case (Some view)
      with Matched False frame_view [OF Some] show ?thesis
        by (simp add: dispatch_request_def)
    qed
  qed
qed

subsection \<open>What a request, the startup and a thread leave alone\<close>

lemma same_globals_fields:
  assumes "same_globals st st'"
  shows "active_connections st' = active_connections st"
    and "unique_clients st' = unique_clients st"
    and "request_duration st' = request_duration st"
    and "service_health st' = service_health st"
    and "postgres_conn st' = postgres_conn st"
    and "redis_client st' = redis_client st"
    and "http_requests_total st' = http_requests_total st"
proof -
  from assms have e: "st'\<lparr>threads := 0, calls := []\<rparr> = st\<lparr>threads := 0, calls := []\<rparr>"
    by (simp add: same_globals_def)
  from arg_cong [OF e, of active_connections]
  show "active_connections st' = active_connections st" by simp
  from arg_cong [OF e, of unique_clients]
  show "unique_clients st' = unique_clients st" by simp
  from arg_cong [OF e, of request_duration]
  show "request_duration st' = request_duration st" by simp
  from arg_cong [OF e, of service_health]
  show "service_health st' = service_health st" by simp
  from arg_cong [OF e, of postgres_conn]
  show "postgres_conn st' = postgres_conn st" by simp
  from arg_cong [OF e, of redis_client]
  show "redis_client st' = redis_client st" by simp
  from arg_cong [OF e, of http_requests_total]
  show "http_requests_total st' = http_requests_total st" by simp
qed

lemma handle_request_cases:
  obtains (returned) resp st' where "same_globals (before_request rq st) st'"
      and "handle_request w rq st = (Inr resp, snd (after_request rq resp st'))"
  | (raised) e st' where "same_globals (before_request rq st) st'"
      and "handle_request w rq st = (Inl e, st')"
proof -
  obtain r st' where d: "dispatch_request w rq (before_request rq st) = (r, st')"
    by (cases "dispatch_request w rq (before_request rq st)")
  have sg: "same_globals (before_request rq st) st'"
    using frameD [OF frame_dispatch_request, of "before_request rq st" w rq] d by simp
  show thesis
  proof (cases r)
    case (Inl e)
    with d have "handle_request w rq st = (Inl e, st')"
      by (simp add: handle_request_def)
    with sg show thesis by (rule raised)
  next
    case (Inr resp)
    with d have "handle_request w rq st = (Inr resp, snd (after_request rq resp st'))"
      by (simp add: handle_request_def after_request_def)
    with sg show thesis by (rule returned)
  qed
qed

text \<open>
  The gauge after one request: back where it was when the view returned, one higher when
  the view raised.
\<close>

lemma handle_request_gauge:
  "active_connections (snd (handle_request w rq st)) =
     active_connections st + (if isl (fst (handle_request w rq st)) then 1 else 0)"
proof (cases rule: handle_request_cases [of rq st w])
  case (returned resp st')
  from same_globals_fields(1) [OF returned(1)] returned(2) show ?thesis
    by (simp add: after_request_def before_request_def)
next
  case (raised e st')
  from same_globals_fields(1) [OF raised(1)] raised(2) show ?thesis
    by (simp add: before_request_def)
qed

lemma handle_request_clients:
  "unique_clients (snd (handle_request w rq st)) = insert (client_ip rq) (unique_clients st)"
proof (cases rule: handle_request_cases [of rq st w])
  case (returned resp st')
  from same_globals_fields(2) [OF returned(1)] returned(2) show ?thesis
    by (simp add: after_request_def before_request_def)
next
  case (raised e st')
  from same_globals_fields(2) [OF raised(1)] raised(2) show ?thesis
    by (simp add: before_request_def)
qed

lemma handle_request_duration:
  "request_duration (snd (handle_request w rq st)) = request_duration st"
proof (cases rule: handle_request_cases [of rq st w])
  case (returned resp st')
  from same_globals_fields(3) [OF returned(1)] returned(2) show ?thesis
    by (simp add: after_request_def before_request_def)
next
  case (raised e st')
  from same_globals_fields(3) [OF raised(1)] raised(2) show ?thesis
    by (simp add: before_request_def)
qed

lemma main_keeps:
  "active_connections (snd (main w st)) = active_connections st \<and>
   unique_clients (snd (main w st)) = unique_clients st \<and>
   request_duration (snd (main w st)) = request_duration st"
  by (cases "psycopg2_connect w (postgres_params w)";
      cases "redis_Redis w (redis_client_params w)"; cases "redis_ping w")
     (simp_all add: main_result connect_postgres_result connect_redis_result set_health_def
        set_database_connections_def)

lemma run_thread_keeps:
  "active_connections (run_thread w st) = active_connections st \<and>
   unique_clients (run_thread w st) = unique_clients st \<and>
   request_duration (run_thread w st) = request_duration st"
proof (cases "threads st = 0")
  case True
  then show ?thesis by (simp add: run_thread_def)
next
  case False
  have "same_globals (st\<lparr>threads := threads st - 1\<rparr>)
          (snd (background_task w (st\<lparr>threads := threads st - 1\<rparr>)))"
    by (rule frameD [OF frame_background_task])
  from same_globals_fields(1-3) [OF this] False show ?thesis
    by (simp add: run_thread_def)
qed

lemma step_clients:
  "unique_clients (step ev st) =
     (case ev of Request w rq \<Rightarrow> insert (client_ip rq) (unique_clients st)
      | _ \<Rightarrow> unique_clients st)"
  by (cases ev) (simp_all add: main_keeps run_thread_keeps handle_request_clients)

lemma step_duration: "request_duration (step ev st) = request_duration st"
  by (cases ev) (simp_all add: main_keeps run_thread_keeps handle_request_duration)

lemma run_duration: "request_duration (run evs st) = request_duration st"
  by (induction evs arbitrary: st) (simp_all add: step_duration)

lemma step_clients_mono: "unique_clients st \<subseteq> unique_clients (step ev st)"
  by (auto simp add: step_clients split: event.splits)

lemma step_clients_finite: "finite (unique_clients st) \<Longrightarrow> finite (unique_clients (step ev st))"
  by (simp add: step_clients split: event.splits)

lemma run_clients_mono: "unique_clients st \<subseteq> unique_clients (run evs st)"
proof (induction evs arbitrary: st)
  case Nil
  show ?case by simp
next
  case (Cons ev evs)
  have "unique_clients st \<subseteq> unique_clients (step ev st)" by (rule step_clients_mono)
  also have "\<dots> \<subseteq> unique_clients (run evs (step ev st))" by (rule Cons.IH)
  finally show ?case by simp
qed

lemma run_clients_finite: "finite (unique_clients st) \<Longrightarrow> finite (unique_clients (run evs st))"
  by (induction evs arbitrary: st) (simp_all add: step_clients_finite)

lemma caught_failure_is_finished:
  "(\<exists>resp. fst (handle_request world_no_hostname get_api_metrics (init_state 0)) = Inr resp \<and>
      status_code resp = 500) \<and>
   active_connections (snd (handle_request world_no_hostname get_api_metrics (init_state 0))) = 0"
  by (simp add: handle_request_def dispatch_request_def view_functions_def routing_defs
        get_api_metrics_def api_metrics_def world_no_hostname_def world_up_def
        io_defs after_request_def before_request_def init_state_def)

text \<open>
  C6 at a concrete request. \<open>GET /network-info\<close> is served from the initial state
  while \<open>socket.gethostname()\<close> raises. \<open>network_info\<close> makes that call outside its
  \<open>try\<close> (\<open>api_metrics\<close> makes it inside one), so the exception leaves the view,
  \<open>after_request\<close> is not called, and the gauge of active requests stays at 1 with no
  request counted: the increment of \<open>before_request\<close> is never matched.
\<close>

theorem raising_view_leaves_gauge_up:
  "fst (handle_request world_no_hostname get_network_info (init_state 0))
     = Inl (Exception ''OSError'' ''no host name'') \<and>
   active_connections (snd (handle_request world_no_hostname get_network_info (init_state 0)))
     = 1 \<and>
   http_requests_total (snd (handle_request world_no_hostname get_network_info (init_state 0)))
     (''GET'', ''network_info'', 500) = None"
  by (simp add: handle_request_def dispatch_request_def view_functions_def routing_defs
        get_network_info_def network_info_def world_no_hostname_def world_up_def
        bind_io_def outside_def before_request_def init_state_def)

text \<open>
  C7. A request puts its client identifier into the set of observed clients, and nothing
  takes an element out: over any sequence of events the set only grows, and so does its
  size.
\<close>

theorem clients_grow:
  "client_ip rq \<in> unique_clients (before_request rq st) \<and>
   client_ip rq \<in> unique_clients (step (Request w rq) st) \<and>
   unique_clients st \<subseteq> unique_clients (run evs st) \<and>
   (finite (unique_clients st) \<longrightarrow>
      card (unique_clients st) \<le> card (unique_clients (run evs st)))"
  using run_clients_mono [of st evs] run_clients_finite [of st evs]
  by (simp add: before_request_def handle_request_clients card_mono)

theorem clients_grow_witness:
  "finite (unique_clients (init_state 0)) \<and>
   card (unique_clients (init_state 0))
     \<le> card (unique_clients (run [Request world_up get_health] (init_state 0)))"
proof -
  have h: "finite (unique_clients (init_state 0))" by (simp add: init_state_def)
  from clients_grow [of get_health "init_state 0" world_up "[Request world_up get_health]"] h
  show ?thesis by blast
qed

subsection \<open>The liveness checks of \<open>network_test\<close>\<close>

lemma connect_calls_append [simp]: "connect_calls (xs @ ys) = connect_calls xs + connect_calls ys"
  by (simp add: connect_calls_def)

lemma connect_calls_Cons [simp]:
  "connect_calls (c # cs) = (if is_connect_call c then 1 else 0) + connect_calls cs"
  by (simp add: connect_calls_def)

lemma connect_calls_Nil [simp]: "connect_calls [] = 0"
  by (simp add: connect_calls_def)

lemma network_test_postgres_result:
  "\<exists>j st'. network_test_postgres w st = (Inr j, st') \<and>
     connect_calls (calls st') = connect_calls (calls st) \<and>
     json_field ''status'' j = Some (JStr
       (case postgres_conn st of None \<Rightarrow> ''not_connected''
        | Some c \<Rightarrow> if pg_probe_raises w then ''error'' else ''connected''))"
  by (cases "postgres_conn st"; cases "pg_cursor w"; cases "pg_execute w";
      cases "pg_fetchone w"; cases "pg_cursor_close w")
     (auto simp add: network_test_postgres_def io_defs pg_probe_raises_def json_field_def
        split: option.splits)

lemma network_test_redis_result:
  "\<exists>j st'. network_test_redis w st = (Inr j, st') \<and>
     connect_calls (calls st') = connect_calls (calls st) \<and>
     json_field ''status'' j = Some (JStr
       (case redis_client st of None \<Rightarrow> ''not_connected''
        | Some c \<Rightarrow> if redis_probe_raises w then ''error'' else ''connected''))"
  by (cases "redis_client st"; cases "redis_set w"; cases "redis_get w"; cases "redis_info w")
     (auto simp add: network_test_redis_def io_defs redis_probe_raises_def json_field_def
        split: option.splits)

lemma test_external_result:
  "\<exists>j st'. test_external_connectivity w st = (Inr j, st') \<and>
     connect_calls (calls st') = connect_calls (calls st)"
  by (cases "create_connection w") (simp_all add: test_external_connectivity_def io_defs)

lemma network_test_sections:
  obtains pg rd ext st1 st2 st3 where
    "network_test_postgres w st = (Inr pg, st1)"
    "network_test_redis w st1 = (Inr rd, st2)"
    "test_external_connectivity w st2 = (Inr ext, st3)"
    "network_test w st =
       (Inr (ok (JObj
          [(''timestamp'', JTime (datetime_now w)),
           (''tests'', JObj [(''postgres'', pg), (''redis'', rd), (''external'', ext)])])),
        st3)"
proof -
  obtain pg st1 where a: "network_test_postgres w st = (Inr pg, st1)"
    using network_test_postgres_result [of w st] by blast
  obtain rd st2 where b: "network_test_redis w st1 = (Inr rd, st2)"
    using network_test_redis_result [of w st1] by blast
  obtain ext st3 where c: "test_external_connectivity w st2 = (Inr ext, st3)"
    using test_external_result [of w st2] by blast
  from a b c have "network_test w st =
       (Inr (ok (JObj
          [(''timestamp'', JTime (datetime_now w)),
           (''tests'', JObj [(''postgres'', pg), (''redis'', rd), (''external'', ext)])])),
        st3)"
    by (simp add: network_test_def bind_io_def return_io_def)
  with a b c show thesis by (rule that)
qed

lemma network_test_keeps:
  "\<exists>resp st'. network_test w st = (Inr resp, st') \<and>
      connect_calls (calls st') = connect_calls (calls st) \<and>
      postgres_conn st' = postgres_conn st \<and> redis_client st' = redis_client st \<and>
      service_health st' = service_health st"
proof -
  obtain pg rd ext st1 st2 st3 where
    a: "network_test_postgres w st = (Inr pg, st1)" and
    b: "network_test_redis w st1 = (Inr rd, st2)" and
    c: "test_external_connectivity w st2 = (Inr ext, st3)" and
    d: "network_test w st =
       (Inr (ok (JObj
          [(''timestamp'', JTime (datetime_now w)),
           (''tests'', JObj [(''postgres'', pg), (''redis'', rd), (''external'', ext)])])),
        st3)"
    by (rule network_test_sections)
  have sg: "same_globals st st3"
    using frameD [OF frame_network_test, of st w] d by simp
  have r1: "connect_calls (calls st1) = connect_calls (calls st)"
    using network_test_postgres_result [of w st] a by auto
  have r2: "connect_calls (calls st2) = connect_calls (calls st1)"
    using network_test_redis_result [of w st1] b by auto
  have r3: "connect_calls (calls st3) = connect_calls (calls st2)"
    using test_external_result [of w st2] c by auto
  show ?thesis
    using r1 r2 r3 same_globals_fields(4-6) [OF sg] d by simp
qed

lemma network_test_postgres_status:
  "json_path [''tests'', ''postgres'', ''status''] (document (network_test w st))
     = Some (JStr (case postgres_conn st of None \<Rightarrow> ''not_connected''
                   | Some c \<Rightarrow> if pg_probe_raises w then ''error'' else ''connected''))"
proof -
  obtain pg rd ext st1 st2 st3 where
    a: "network_test_postgres w st = (Inr pg, st1)" and
    d: "network_test w st =
       (Inr (ok (JObj
          [(''timestamp'', JTime (datetime_now w)),
           (''tests'', JObj [(''postgres'', pg), (''redis'', rd), (''external'', ext)])])),
        st3)"
    by (rule network_test_sections)
  have p: "json_field ''status'' pg = Some (JStr
       (case postgres_conn st of None \<Rightarrow> ''not_connected''
        | Some c \<Rightarrow> if pg_probe_raises w then ''error'' else ''connected''))"
    using network_test_postgres_result [of w st] a by auto
  have "json_path [''tests'', ''postgres'', ''status''] (document (network_test w st))
          = json_field ''status'' pg"
    by (simp add: d document_def ok_def json_field_def split: option.splits)
  with p show ?thesis by simp
qed

lemma network_test_redis_status:
  "json_path [''tests'', ''redis'', ''status''] (document (network_test w st))
     = Some (JStr (case redis_client st of None \<Rightarrow> ''not_connected''
                   | Some c \<Rightarrow> if redis_probe_raises w then ''error'' else ''connected''))"
proof -
  obtain pg rd ext st1 st2 st3 where
    a: "network_test_postgres w st = (Inr pg, st1)" and
    b: "network_test_redis w st1 = (Inr rd, st2)" and
    d: "network_test w st =
       (Inr (ok (JObj
          [(''timestamp'', JTime (datetime_now w)),
           (''tests'', JObj [(''postgres'', pg), (''redis'', rd), (''external'', ext)])])),
        st3)"
    by (rule network_test_sections)
  have sg1: "same_globals st st1"
    using frameD [OF frame_network_test_postgres, of st w] a by simp
  have q: "json_field ''status'' rd = Some (JStr
       (case redis_client st1 of None \<Rightarrow> ''not_connected''
        | Some c \<Rightarrow> if redis_probe_raises w then ''error'' else ''connected''))"
    using network_test_redis_result [of w st1] b by auto
  have "json_path [''tests'', ''redis'', ''status''] (document (network_test w st))
          = json_field ''status'' rd"
    by (simp add: d document_def ok_def json_field_def split: option.splits)
  with q same_globals_fields(6) [OF sg1] show ?thesis by simp
qed

text \<open>
  C4, as the code has it. \<open>network_test\<close> never raises and never calls
  \<open>psycopg2.connect\<close> or \<open>redis.Redis\<close>, the calls that \<open>connect_postgres\<close> and
  \<open>connect_redis\<close> make: the trace gains no such call, and the two handles and the
  health map are as before. A dependency whose handle is absent is reported
  \<open>not_connected\<close>; one whose handle is present is reported \<open>error\<close> when its probe
  raises and \<open>connected\<close> otherwise.
\<close>

theorem liveness_check_makes_no_connect_call:
  "(\<exists>resp st'. network_test w st = (Inr resp, st') \<and>
      connect_calls (calls st') = connect_calls (calls st) \<and>
      postgres_conn st' = postgres_conn st \<and> redis_client st' = redis_client st \<and>
      service_health st' = service_health st) \<and>
   json_path [''tests'', ''postgres'', ''status''] (document (network_test w st))
     = Some (JStr (case postgres_conn st of None \<Rightarrow> ''not_connected''
                   | Some c \<Rightarrow> if pg_probe_raises w then ''error'' else ''connected'')) \<and>
   json_path [''tests'', ''redis'', ''status''] (document (network_test w st))
     = Some (JStr (case redis_client st of None \<Rightarrow> ''not_connected''
                   | Some c \<Rightarrow> if redis_probe_raises w then ''error'' else ''connected''))"
  using network_test_keeps [of w st]
  by (simp only: network_test_postgres_status network_test_redis_status simp_thms)

text \<open>
  C4, as stated, fails: with no database handle the check reports \<open>not_connected\<close>,
  and the number of calls of \<open>psycopg2.connect\<close> or \<open>redis.Redis\<close> it made is not
  one (it is zero).
\<close>

theorem one_reconnect_counterexample:
  "postgres_conn (init_state 0) = None \<and>
   json_path [''tests'', ''postgres'', ''status'']
     (document (network_test world_up (init_state 0))) = Some (JStr ''not_connected'') \<and>
   connect_calls (calls (snd (network_test world_up (init_state 0)))) \<noteq> 1"
proof -
  have a: "postgres_conn (init_state 0) = None" by (simp add: init_state_def)
  have b: "json_path [''tests'', ''postgres'', ''status'']
     (document (network_test world_up (init_state 0))) = Some (JStr ''not_connected'')"
    unfolding network_test_postgres_status a by simp
  have "connect_calls (calls (snd (network_test world_up (init_state 0))))
          = connect_calls (calls (init_state 0))"
    using network_test_keeps [of world_up "init_state 0"] by auto
  then have c: "connect_calls (calls (snd (network_test world_up (init_state 0)))) \<noteq> 1"
    by (simp add: init_state_def)
  from a b c show ?thesis by blast
qed

subsection \<open>A cache client whose first ping failed\<close>

lemma connect_redis_ping_fails:
  assumes "redis_Redis w0 (redis_client_params w0) = Inr c" and "redis_ping w0 = Inl e"
  shows "redis_client (snd (connect_redis w0 st)) = Some c"
  using assms by (simp add: connect_redis_result set_health_def set_database_connections_def)

lemma background_task_calls:
  "redis_client st = Some c \<Longrightarrow>
   calls (snd (background_task w st)) =
     calls st @ [RedisSetex (''load_test_'' @ str_int (time_time w)) 300 (str_int cpu_work)]"
  by (cases "redis_setex w") (simp_all add: background_task_def io_defs)

text \<open>
  C10, as the code has it. When \<open>redis.Redis\<close> returns a client and the ping raises,
  \<open>connect_redis\<close> leaves \<open>redis_client\<close> set to that client. In the state it leaves,
  \<open>network_test\<close> takes the branch that tries the cache: it reports \<open>error\<close> when one
  of the operations raises and \<open>connected\<close> when none does, never \<open>not_connected\<close>;
  and the background task makes its \<open>setex\<close> call.
\<close>

theorem unreset_client_after_failed_ping:
  assumes "redis_Redis w0 (redis_client_params w0) = Inr c" and "redis_ping w0 = Inl e"
  shows "redis_client (snd (connect_redis w0 st)) = Some c \<and>
    json_path [''tests'', ''redis'', ''status'']
        (document (network_test w (snd (connect_redis w0 st))))
      = Some (JStr (if redis_probe_raises w then ''error'' else ''connected'')) \<and>
    calls (snd (background_task w (snd (connect_redis w0 st)))) =
      calls (snd (connect_redis w0 st)) @
        [RedisSetex (''load_test_'' @ str_int (time_time w)) 300 (str_int cpu_work)]"
  using connect_redis_ping_fails [OF assms, of st]
  by (simp add: network_test_redis_status background_task_calls del: json_path.simps)

theorem unreset_client_after_failed_ping_witness:
  "redis_client (snd (connect_redis world_ping_fails (init_state 0)))
     = Some (RedisClient (redis_client_params world_ping_fails)) \<and>
   json_path [''tests'', ''redis'', ''status'']
       (document (network_test world_cache_down (snd (connect_redis world_ping_fails (init_state 0)))))
     = Some (JStr ''error'') \<and>
   last (calls (snd (background_task world_cache_down
      (snd (connect_redis world_ping_fails (init_state 0))))))
     = RedisSetex (''load_test_'' @ str_int (time_time world_cache_down)) 300 (str_int cpu_work)"
proof -
  have a: "redis_Redis world_ping_fails (redis_client_params world_ping_fails)
             = Inr (RedisClient (redis_client_params world_ping_fails))"
    by (simp add: world_ping_fails_def world_up_def)
  have b: "redis_ping world_ping_fails = Inl refused"
    by (simp add: world_ping_fails_def world_up_def)
  have c: "redis_probe_raises world_cache_down"
    by (simp add: redis_probe_raises_def world_cache_down_def world_up_def)
  from unreset_client_after_failed_ping [OF a b, of "init_state 0" world_cache_down] c
  show ?thesis by (simp del: json_path.simps)
qed

text \<open>
  C10, as stated, fails where it says the status is always \<open>error\<close>: the ping at
  startup fails, the cache answers afterwards, and \<open>network_test\<close> reports
  \<open>connected\<close>.
\<close>

theorem failed_ping_status_counterexample:
  "redis_ping world_ping_fails = Inl refused \<and>
   json_path [''tests'', ''redis'', ''status'']
       (document (network_test world_up (snd (connect_redis world_ping_fails (init_state 0)))))
     = Some (JStr ''connected'') \<and>
   json_path [''tests'', ''redis'', ''status'']
       (document (network_test world_up (snd (connect_redis world_ping_fails (init_state 0)))))
     \<noteq> Some (JStr ''error'')"
proof -
  have a: "redis_Redis world_ping_fails (redis_client_params world_ping_fails)
             = Inr (RedisClient (redis_client_params world_ping_fails))"
    by (simp add: world_ping_fails_def world_up_def)
  have b: "redis_ping world_ping_fails = Inl refused"
    by (simp add: world_ping_fails_def world_up_def)
  have c: "\<not> redis_probe_raises world_up"
    by (simp add: redis_probe_raises_def world_up_def)
  from connect_redis_ping_fails [OF a b, of "init_state 0"] b c
  show ?thesis by (simp add: network_test_redis_status del: json_path.simps)
qed

subsection \<open>Background load\<close>

lemma simulate_load_result:
  "simulate_load w st = (Inr (load_started w), st\<lparr>threads := threads st + 1\<rparr>)"
  by (simp add: simulate_load_def io_defs)

lemma simulate_load_answer:
  "status_code (load_started w) = 200 \<and>
   body (load_started w) = Jsonify (JObj
     [(''message'', JStr ''Load simulation started''),
      (''timestamp'', JTime (datetime_now w)),
      (''note'', JStr ''This simulates CPU load and Redis writes for learning purposes'')])"
  by (simp add: load_started_def ok_def)

lemma handle_simulate_load:
  assumes "rq_method rq = ''GET''" and "rq_path rq = ''/api/simulate-load''"
  shows "fst (handle_request w rq st) = Inr (load_started w)"
  using assms
  by (simp add: handle_request_def dispatch_request_def view_functions_def routing_defs
        simulate_load_result after_request_def)

lemma run_started_thread:
  "run_thread w' (snd (simulate_load w st)) =
     (case redis_client st of
        None \<Rightarrow> st
      | Some c \<Rightarrow>
          st\<lparr>calls := calls st @
                [RedisSetex (''load_test_'' @ str_int (time_time w')) 300 (str_int cpu_work)]\<rparr>)"
  by (cases "redis_client st"; cases "redis_setex w'")
     (simp_all add: simulate_load_result run_thread_def background_task_def io_defs)

lemma raising_thread_example:
  "fst (background_task world_cache_down
          (snd (connect_redis world_ping_fails (init_state 0)))) = Inl refused"
  by (simp add: background_task_def io_defs connect_redis_result world_ping_fails_def
        world_cache_down_def world_up_def set_health_def set_database_connections_def)

text \<open>
  C8. \<open>simulate_load\<close> never raises: it starts the thread, makes no outside call and
  returns status 200 with the message \<open>Load simulation started\<close>, which does not
  depend on what the task will do; a \<open>GET /api/simulate-load\<close> is answered with that.
  When the started thread runs, with no cache client it writes nothing and the globals are
  as they were before the submission; with a client it makes one \<open>setex\<close> call, and
  whether that call returns or raises changes nothing else: what the task raises ends with
  its thread.
\<close>

theorem simulate_load_fire_and_forget:
  "(\<exists>resp. fst (simulate_load w st) = Inr resp \<and> status_code resp = 200) \<and>
   json_path [''message''] (document (simulate_load w st))
     = Some (JStr ''Load simulation started'') \<and>
   calls (snd (simulate_load w st)) = calls st \<and>
   threads (snd (simulate_load w st)) = threads st + 1 \<and>
   (rq_method rq = ''GET'' \<and> rq_path rq = ''/api/simulate-load'' \<longrightarrow>
      (\<exists>resp. fst (handle_request w rq st) = Inr resp \<and> status_code resp = 200) \<and>
      json_path [''message''] (document (handle_request w rq st))
        = Some (JStr ''Load simulation started'')) \<and>
   run_thread w' (snd (simulate_load w st)) =
     (case redis_client st of
        None \<Rightarrow> st
      | Some c \<Rightarrow>
          st\<lparr>calls := calls st @
                [RedisSetex (''load_test_'' @ str_int (time_time w')) 300 (str_int cpu_work)]\<rparr>)"
proof (intro conjI impI)
  show "\<exists>resp. fst (simulate_load w st) = Inr resp \<and> status_code resp = 200"
    by (simp add: simulate_load_result simulate_load_answer)
next
  show "json_path [''message''] (document (simulate_load w st))
     = Some (JStr ''Load simulation started'')"
    by (simp add: simulate_load_result simulate_load_answer document_def json_field_def)
next
  show "calls (snd (simulate_load w st)) = calls st"
    by (simp add: simulate_load_result)
next
  show "threads (snd (simulate_load w st)) = threads st + 1"
    by (simp add: simulate_load_result)
next
  assume "rq_method rq = ''GET'' \<and> rq_path rq = ''/api/simulate-load''"
  then have "fst (handle_request w rq st) = Inr (load_started w)"
    by (simp add: handle_simulate_load)
  then show "\<exists>resp. fst (handle_request w rq st) = Inr resp \<and> status_code resp = 200"
    by (simp add: simulate_load_answer)
next
  assume "rq_method rq = ''GET'' \<and> rq_path rq = ''/api/simulate-load''"
  then have "fst (handle_request w rq st) = Inr (load_started w)"
    by (simp add: handle_simulate_load)
  then show "json_path [''message''] (document (handle_request w rq st))
        = Some (JStr ''Load simulation started'')"
    by (simp add: simulate_load_answer document_def json_field_def)
next
  show "run_thread w' (snd (simulate_load w st)) =
     (case redis_client st of
        None \<Rightarrow> st
      | Some c \<Rightarrow>
          st\<lparr>calls := calls st @
                [RedisSetex (''load_test_'' @ str_int (time_time w')) 300 (str_int cpu_work)]\<rparr>)"
    by (rule run_started_thread)
qed

theorem simulate_load_fire_and_forget_witness:
  "rq_method get_simulate_load = ''GET'' \<and>
   rq_path get_simulate_load = ''/api/simulate-load'' \<and>
   (\<exists>resp. fst (handle_request world_cache_down get_simulate_load (init_state 0)) = Inr resp \<and>
      status_code resp = 200) \<and>
   json_path [''message'']
       (document (handle_request world_cache_down get_simulate_load (init_state 0)))
     = Some (JStr ''Load simulation started'') \<and>
   run_thread world_cache_down (snd (simulate_load world_cache_down (init_state 0)))
     = init_state 0"
proof -
  have h: "rq_method get_simulate_load = ''GET'' \<and>
           rq_path get_simulate_load = ''/api/simulate-load''"
    by (simp add: get_simulate_load_def)
  have n: "redis_client (init_state 0) = None" by (simp add: init_state_def)
  note t = simulate_load_fire_and_forget
    [of world_cache_down "init_state 0" get_simulate_load world_cache_down]
  from t h have a: "(\<exists>resp. fst (handle_request world_cache_down get_simulate_load
        (init_state 0)) = Inr resp \<and> status_code resp = 200) \<and>
      json_path [''message'']
          (document (handle_request world_cache_down get_simulate_load (init_state 0)))
        = Some (JStr ''Load simulation started'')" by blast
  from t have "run_thread world_cache_down (snd (simulate_load world_cache_down (init_state 0)))
     = (case redis_client (init_state 0) of
        None \<Rightarrow> init_state 0
      | Some c \<Rightarrow>
          (init_state 0)\<lparr>calls := calls (init_state 0) @
                [RedisSetex (''load_test_'' @ str_int (time_time world_cache_down)) 300
                   (str_int cpu_work)]\<rparr>)" by blast
  then have b: "run_thread world_cache_down
      (snd (simulate_load world_cache_down (init_state 0))) = init_state 0"
    unfolding n by simp
  from h a b show ?thesis by blast
qed

end
